theory Spec2Isabelle
  imports Complex_Main
begin

section \<open>Python values the monitor computes with\<close>

text \<open>
  A Python float is modelled by its exact value: a finite real, one of the two infinities,
  or NaN. Rounding to the nearest double and overflow are left out, so arithmetic on
  finite values is exact real arithmetic.
\<close>

datatype pyfloat = Fin real | PInf | NInf | NaN

text \<open>The exceptions the code can meet; every handler of the source catches all of them.\<close>

datatype exn = ValueError | IndexError | KeyError | TypeError | ZeroDivisionError
  | AttributeError | OperationalError | IntegrityError | InterfaceError | RequestException
  | SchedulerError | JSONDecodeError



text \<open>\<open>multiple >= target_multiple\<close>, a float against an integer tier.\<close>

fun pf_ge :: "pyfloat \<Rightarrow> int \<Rightarrow> bool" where
  "pf_ge (Fin x) t = (real_of_int t \<le> x)"
| "pf_ge PInf t = True"
| "pf_ge NInf t = False"
| "pf_ge NaN t = False"

text \<open>
  \<open>current_mcap / token['initial_mcap']\<close>: Python raises ZeroDivisionError on a zero
  divisor before anything else; HOL's \<open>x / 0 = 0\<close> must not stand in for it.
\<close>

fun pf_div :: "pyfloat \<Rightarrow> pyfloat \<Rightarrow> exn + pyfloat" where
  "pf_div a (Fin y) =
     (if y = 0 then Inl ZeroDivisionError
      else (case a of
          Fin x \<Rightarrow> Inr (Fin (x / y))
        | PInf \<Rightarrow> Inr (if 0 < y then PInf else NInf)
        | NInf \<Rightarrow> Inr (if 0 < y then NInf else PInf)
        | NaN \<Rightarrow> Inr NaN))"
| "pf_div (Fin x) PInf = Inr (Fin 0)"
| "pf_div (Fin x) NInf = Inr (Fin 0)"
| "pf_div a b = Inr NaN"

section \<open>String to number: \<open>float(str)\<close> and \<open>parse_market_cap\<close>\<close>


definition is_digit :: "char \<Rightarrow> bool" where
  "is_digit c = (c \<in> set ''0123456789'')"

definition digit_val :: "char \<Rightarrow> nat" where
  "digit_val c = of_char c - 48"





definition dec :: "string \<Rightarrow> nat" where
  "dec s = foldl (\<lambda>n c. 10 * n + digit_val c) 0 (filter is_digit s)"











section \<open>Market data client\<close>

text \<open>
  One trading pair of the provider's answer, as the code reads it. A field is \<open>None\<close>
  when the code's read of it raises: \<open>fdv\<close> when the key is missing or holds no number,
  \<open>priceUsd\<close> and \<open>priceNative\<close> when \<open>float\<close> rejects the value (a missing key reads
  as zero), \<open>pairCreatedAt\<close> (milliseconds) when \<open>datetime.fromtimestamp\<close> rejects it.
  \<open>twitter\<close> is the \<open>url\<close> of the first social entry of type twitter: \<open>None\<close> without
  such an entry, \<open>Some None\<close> when the url is not a string.
\<close>

record pair =
  fdv :: "pyfloat option"
  priceUsd :: "pyfloat option"
  priceNative :: "pyfloat option"
  pairCreatedAt :: "int option"
  twitter :: "string option option"

text \<open>
  The decoded JSON: \<open>JNull\<close> is Python's \<open>None\<close>, \<open>JEmpty\<close> any other falsy value
  (such as \<open>{}\<close>), \<open>JObj\<close> a truthy value with its \<open>pairs\<close> entry (\<open>NoPairs\<close> when
  there is no list under that key).
\<close>

datatype jpairs = NoPairs | Pairs "pair list"

datatype dex_json = JNull | JEmpty | JObj jpairs

fun truthy :: "dex_json \<Rightarrow> bool" where
  "truthy (JObj p) = True"
| "truthy j = False"

record request =
  url :: string
  headers :: "(string \<times> string) list"
  timeout :: nat

text \<open>
  What \<open>requests.get\<close> does: it returns a response (status code, and the value of
  \<open>response.json()\<close>, \<open>None\<close> when decoding raises) or raises (time-out, connection error).
\<close>

datatype http_outcome = Response int "dex_json option" | Failed exn

definition fetch_request :: "string \<Rightarrow> request" where
  "fetch_request token_address =
     \<lparr>url = ''https://api.dexscreener.com/latest/dex/tokens/'' @ token_address,
      headers = [(''Accept'', ''application/json''), (''User-Agent'', ''Mozilla/5.0'')],
      timeout = 10\<rparr>"

definition fetch_dexscreener_data_try :: "(request \<Rightarrow> http_outcome) \<Rightarrow> string \<Rightarrow> exn + dex_json" where
  "fetch_dexscreener_data_try requests_get token_address =
     (case requests_get (fetch_request token_address) of
        Failed e \<Rightarrow> Inl e
      | Response status_code body \<Rightarrow>
          if status_code = 200
          then (case body of None \<Rightarrow> Inl JSONDecodeError | Some j \<Rightarrow> Inr j)
          else Inr JNull)"

definition fetch_dexscreener_data :: "(request \<Rightarrow> http_outcome) \<Rightarrow> string \<Rightarrow> dex_json" where
  "fetch_dexscreener_data requests_get token_address =
     (case fetch_dexscreener_data_try requests_get token_address of
        Inl e \<Rightarrow> JNull
      | Inr j \<Rightarrow> j)"

record parsed =
  price_usd :: pyfloat
  created_time :: int
  socials :: "string option option"

definition parse_dexscreener_data :: "dex_json \<Rightarrow> parsed option" where
  "parse_dexscreener_data data =
     (case data of
        JObj (Pairs (first_pair # rest)) \<Rightarrow>
          (case (pairCreatedAt first_pair, priceUsd first_pair) of
             (Some t, Some p) \<Rightarrow>
               Some \<lparr>price_usd = p, created_time = t div 1000, socials = twitter first_pair\<rparr>
           | _ \<Rightarrow> None)
      | _ \<Rightarrow> None)"

text \<open>\<open>dex_data['pairs'][0]['fdv']\<close>, with the exception each missing level raises.\<close>

definition first_fdv :: "dex_json \<Rightarrow> exn + pyfloat" where
  "first_fdv dex_data =
     (case dex_data of
        JObj (Pairs (p # rest)) \<Rightarrow> (case fdv p of None \<Rightarrow> Inl KeyError | Some v \<Rightarrow> Inr v)
      | JObj (Pairs []) \<Rightarrow> Inl IndexError
      | JObj NoPairs \<Rightarrow> Inl KeyError
      | _ \<Rightarrow> Inl TypeError)"

section \<open>The database (\<open>TokenDB\<close>)\<close>

record token_row =
  ca :: string
  token :: string
  initial_mcap :: pyfloat
  last_alert_time :: int
  received_time :: string
  sourceType :: string

record alert_row =
  alert_ca :: string
  alert_multiple :: int
  max_market_cap :: pyfloat

record price_row =
  price_ca :: string
  price_usd_col :: pyfloat
  price_native_col :: pyfloat
  fdv_col :: "pyfloat option"

text \<open>
  The tables, each a list of rows in insertion order. \<open>alerts_has_mcap\<close> says whether the
  table \<open>multiple_alerts\<close> has a column \<open>max_market_cap\<close>: the \<open>CREATE TABLE\<close> of
  \<open>init_db\<close> declares only \<open>ca\<close>, \<open>multiple\<close> and \<open>alert_time\<close>, and a table that
  exists already is left as it is (\<open>IF NOT EXISTS\<close>).
\<close>

record database =
  monitored_tokens :: "token_row list"
  multiple_alerts :: "alert_row list"
  alerts_has_mcap :: bool
  price_history :: "price_row list"
  purchase_records :: "(string \<times> string) list"

definition new_db :: database where
  "new_db = \<lparr>monitored_tokens = [], multiple_alerts = [], alerts_has_mcap = False,
             price_history = [], purchase_records = []\<rparr>"

text \<open>\<open>init_db\<close> on a file without tables (\<open>None\<close>) or on an existing database.\<close>

definition init_db :: "database option \<Rightarrow> database" where
  "init_db file = (case file of None \<Rightarrow> new_db | Some d \<Rightarrow> d)"


text \<open>
  The operations of the database an environment can make fail (a locked or unreadable
  file), and everything else the program takes from outside.
\<close>

datatype db_op = ListTokens | AddToken string | CheckAlert string int | RecordAlert string int
  | AddPrice string | AddPurchase string

record quote =
  code :: string
  purchase :: "string option"

record tweet =
  tw_token :: string
  tw_ca :: string
  tw_multiple :: pyfloat
  tw_received_time :: string
  tw_initial_mcap :: pyfloat
  tw_price_usd :: pyfloat
  tw_created_time :: int
  tw_social :: "string option"

record env =
  requests_get :: "request \<Rightarrow> http_outcome"
  clock :: "nat \<Rightarrow> real"
  db_fault :: "db_op \<Rightarrow> bool"
  add_job_fault :: "tweet \<Rightarrow> bool"
  sqlite_datetime :: "string \<Rightarrow> int option"
  sqlite_now :: int
  okx_new :: "exn option"
  okx_get_quote :: "string \<Rightarrow> exn + quote"



text \<open>
  \<open>get_all_tokens\<close>: the rows whose \<open>received_time\<close> SQLite's \<open>datetime\<close> reads
  (\<open>sqlite_datetime\<close>, in seconds; \<open>None\<close> is SQL's NULL) as later than 72 hours before now.
\<close>

definition get_all_tokens :: "env \<Rightarrow> database \<Rightarrow> exn + token_row list" where
  "get_all_tokens E d =
     (if db_fault E ListTokens then Inl OperationalError
      else Inr (filter
        (\<lambda>r. case sqlite_datetime E (received_time r) of
               None \<Rightarrow> False
             | Some t \<Rightarrow> sqlite_now E - 72 * 3600 < t)
        (monitored_tokens d)))"

text \<open>
  The alert ledger. \<open>check_multiple_alerted\<close> has no \<open>try\<close> of its own;
  \<open>record_multiple_alert\<close> names the column \<open>max_market_cap\<close> in its \<open>INSERT\<close>, is
  stopped by the primary key \<open>(ca, multiple)\<close> on a second row, and turns every
  exception into \<open>False\<close>. SQLite does not enforce the foreign key unless asked to.
\<close>

definition check_multiple_alerted :: "env \<Rightarrow> database \<Rightarrow> string \<Rightarrow> int \<Rightarrow> exn + bool" where
  "check_multiple_alerted E d addr m =
     (if db_fault E (CheckAlert addr m) then Inl OperationalError
      else Inr (list_ex (\<lambda>r. alert_ca r = addr \<and> alert_multiple r = m) (multiple_alerts d)))"

definition record_multiple_alert_try ::
    "env \<Rightarrow> database \<Rightarrow> string \<Rightarrow> int \<Rightarrow> pyfloat \<Rightarrow> exn + database \<times> bool" where
  "record_multiple_alert_try E d addr m mcap =
     (if db_fault E (RecordAlert addr m) then Inl OperationalError
      else if \<not> alerts_has_mcap d then Inl OperationalError
      else if list_ex (\<lambda>r. alert_ca r = addr \<and> alert_multiple r = m) (multiple_alerts d)
        then Inl IntegrityError
      else Inr (d\<lparr>multiple_alerts := multiple_alerts d @
             [\<lparr>alert_ca = addr, alert_multiple = m, max_market_cap = mcap\<rparr>]\<rparr>, True))"

definition record_multiple_alert ::
    "env \<Rightarrow> database \<Rightarrow> string \<Rightarrow> int \<Rightarrow> pyfloat \<Rightarrow> database \<times> bool" where
  "record_multiple_alert E d addr m mcap =
     (case record_multiple_alert_try E d addr m mcap of
        Inl e \<Rightarrow> (d, False)
      | Inr r \<Rightarrow> r)"

definition add_price_record :: "env \<Rightarrow> database \<Rightarrow> string \<Rightarrow> dex_json \<Rightarrow> database \<times> bool" where
  "add_price_record E d addr dex_data =
     (case dex_data of
        JObj (Pairs (p # rest)) \<Rightarrow>
          (case (priceUsd p, priceNative p) of
             (Some u, Some n) \<Rightarrow>
               if db_fault E (AddPrice addr) then (d, False)
               else (d\<lparr>price_history := price_history d @
                      [\<lparr>price_ca = addr, price_usd_col = u, price_native_col = n,
                        fdv_col = fdv p\<rparr>]\<rparr>, True)
           | _ \<Rightarrow> (d, False))
      | _ \<Rightarrow> (d, False))"


section \<open>Notification dispatcher\<close>

definition MULTIPLES :: "int list" where
  "MULTIPLES = [5, 10, 20, 50, 100]"

definition TWEET_INTERVAL :: real where
  "TWEET_INTERVAL = 10"

text \<open>
  The text of a tweet is kept as the record of the values \<open>format_tweet_text\<close> puts
  into it. With a \<open>multiple\<close> given (the monitor always gives one) the only read that can
  raise is \<open>.replace\<close> on a twitter url that is not a string.
\<close>

definition format_tweet_text :: "token_row \<Rightarrow> parsed \<Rightarrow> pyfloat \<Rightarrow> exn + tweet" where
  "format_tweet_text data dex_data mult =
     (case socials dex_data of
        Some None \<Rightarrow> Inl AttributeError
      | social \<Rightarrow>
          Inr \<lparr>tw_token = token data, tw_ca = ca data, tw_multiple = mult,
               tw_received_time = received_time data, tw_initial_mcap = initial_mcap data,
               tw_price_usd = price_usd dex_data, tw_created_time = created_time dex_data,
               tw_social = (case social of Some (Some u) \<Rightarrow> Some u | _ \<Rightarrow> None)\<rparr>)"

record job =
  run_date :: real
  job_text :: tweet

datatype event = Checking string | Unavailable string | Deferred string int real
  | Scheduled string int real | TierError string int | TokenError string | CycleError

text \<open>
  The state of the server process: the database, the scheduler's pending jobs, the tweets
  the posting API has accepted, the monitor's \<open>last_tweet_time\<close>, the number of clock
  readings taken so far (the next reading is \<open>clock E (ticks s)\<close>), and what the monitor
  has printed.
\<close>

record sys =
  db :: database
  jobs :: "job list"
  posted :: "tweet list"
  last_tweet_time :: real
  ticks :: nat
  trace :: "event list"

definition add_log :: "event \<Rightarrow> sys \<Rightarrow> sys" where
  "add_log e s = s\<lparr>trace := trace s @ [e]\<rparr>"

text \<open>
  \<open>send_tweet\<close>: the posting API answers with a status code (\<open>None\<close>: the call raised);
  only 201 counts as sent.
\<close>

definition send_tweet :: "(tweet \<Rightarrow> int option) \<Rightarrow> tweet \<Rightarrow> bool" where
  "send_tweet oauth_post text =
     (case oauth_post text of
        None \<Rightarrow> False
      | Some status_code \<Rightarrow> if status_code \<noteq> 201 then False else True)"

text \<open>
  \<open>schedule_tweet\<close> reads the clock and adds a one-shot job at \<open>now + delay_minutes\<close>;
  it does not call \<open>send_tweet\<close>. The first component of the result is the exception
  raised, if any.
\<close>

definition schedule_tweet :: "env \<Rightarrow> tweet \<Rightarrow> int \<Rightarrow> sys \<Rightarrow> exn option \<times> sys" where
  "schedule_tweet E text delay_minutes s =
     (let current_time = clock E (ticks s);
          target_time = current_time + 60 * real_of_int delay_minutes;
          s1 = s\<lparr>ticks := Suc (ticks s)\<rparr>
      in if add_job_fault E text then (Some SchedulerError, s1)
         else (None, s1\<lparr>jobs := jobs s1 @ [\<lparr>run_date = target_time, job_text = text\<rparr>]\<rparr>))"

text \<open>
  The scheduler runs a pending job once, at its date: the job leaves the queue and
  \<open>send_tweet\<close> is called; nothing else of the state is touched.
\<close>

definition run_job :: "(tweet \<Rightarrow> int option) \<Rightarrow> nat \<Rightarrow> sys \<Rightarrow> sys" where
  "run_job oauth_post i s =
     (if i < length (jobs s)
      then (let j = jobs s ! i;
                s1 = s\<lparr>jobs := take i (jobs s) @ drop (Suc i) (jobs s)\<rparr>
            in if send_tweet oauth_post (job_text j)
               then s1\<lparr>posted := posted s1 @ [job_text j]\<rparr>
               else s1)
      else s)"

section \<open>Monitoring loop\<close>

text \<open>
  The body of the innermost \<open>try\<close> of \<open>monitor_token_price\<close>, for one tier the multiple
  has reached: ledger check, spacing gate, then parse, format, schedule, record.
\<close>

definition alert_tier ::
    "env \<Rightarrow> token_row \<Rightarrow> dex_json \<Rightarrow> pyfloat \<Rightarrow> pyfloat \<Rightarrow> int \<Rightarrow> sys \<Rightarrow> exn option \<times> sys" where
  "alert_tier E tok dex_data current_mcap mult target_multiple s =
     (case check_multiple_alerted E (db s) (ca tok) target_multiple of
        Inl e \<Rightarrow> (Some e, s)
      | Inr alerted \<Rightarrow>
          if alerted then (None, s)
          else
            (let current_timestamp = clock E (ticks s);
                 s1 = s\<lparr>ticks := Suc (ticks s)\<rparr>
             in if current_timestamp - last_tweet_time s1 < TWEET_INTERVAL
                then (None, add_log (Deferred (ca tok) target_multiple current_timestamp) s1)
                else
                  (case parse_dexscreener_data dex_data of
                     None \<Rightarrow> (None, s1)
                   | Some parsed_dex_data \<Rightarrow>
                       (case format_tweet_text tok parsed_dex_data mult of
                          Inl e \<Rightarrow> (Some e, s1)
                        | Inr tweet_text \<Rightarrow>
                            (case schedule_tweet E tweet_text 30 s1 of
                               (Some e, s2) \<Rightarrow> (Some e, s2)
                             | (None, s2) \<Rightarrow>
                                 (let s3 = s2\<lparr>db := fst (record_multiple_alert E (db s2) (ca tok)
                                                       target_multiple current_mcap)\<rparr>;
                                      s4 = s3\<lparr>last_tweet_time := clock E (ticks s3),
                                              ticks := Suc (ticks s3)\<rparr>
                                  in (None, add_log
                                       (Scheduled (ca tok) target_multiple current_timestamp) s4)))))))"

text \<open>One round of \<open>for target_multiple in MULTIPLES\<close>, with its \<open>except\<close>.\<close>

definition tier_step ::
    "env \<Rightarrow> token_row \<Rightarrow> dex_json \<Rightarrow> pyfloat \<Rightarrow> pyfloat \<Rightarrow> sys \<Rightarrow> int \<Rightarrow> sys" where
  "tier_step E tok dex_data current_mcap mult s target_multiple =
     (if pf_ge mult target_multiple
      then (case alert_tier E tok dex_data current_mcap mult target_multiple s of
              (None, s') \<Rightarrow> s'
            | (Some e, s') \<Rightarrow> add_log (TierError (ca tok) target_multiple) s')
      else s)"

text \<open>The loop over a list of tiers; the source runs it on \<open>MULTIPLES\<close>.\<close>

definition evaluate ::
    "int list \<Rightarrow> env \<Rightarrow> token_row \<Rightarrow> dex_json \<Rightarrow> pyfloat \<Rightarrow> pyfloat \<Rightarrow> sys \<Rightarrow> sys" where
  "evaluate tiers E tok dex_data current_mcap mult s =
     foldl (tier_step E tok dex_data current_mcap mult) s tiers"

text \<open>The body of the per-token \<open>try\<close>, and the round of \<open>for token in tokens\<close> around it.\<close>

definition check_token :: "env \<Rightarrow> token_row \<Rightarrow> sys \<Rightarrow> exn option \<times> sys" where
  "check_token E tok s =
     (let s0 = add_log (Checking (ca tok)) s;
          dex_data = fetch_dexscreener_data (requests_get E) (ca tok)
      in if \<not> truthy dex_data then (None, add_log (Unavailable (ca tok)) s0)
         else
           (let s1 = s0\<lparr>db := fst (add_price_record E (db s0) (ca tok) dex_data)\<rparr>
            in case first_fdv dex_data of
                 Inl e \<Rightarrow> (Some e, s1)
               | Inr current_mcap \<Rightarrow>
                   (case pf_div current_mcap (initial_mcap tok) of
                      Inl e \<Rightarrow> (Some e, s1)
                    | Inr mult \<Rightarrow>
                        (None, evaluate MULTIPLES E tok dex_data current_mcap mult s1))))"

definition token_step :: "env \<Rightarrow> sys \<Rightarrow> token_row \<Rightarrow> sys" where
  "token_step E s tok =
     (case check_token E tok s of
        (None, s') \<Rightarrow> s'
      | (Some e, s') \<Rightarrow> add_log (TokenError (ca tok)) s')"

text \<open>One polling cycle: the body of \<open>while True\<close> up to the sleep.\<close>

definition monitor_cycle :: "env \<Rightarrow> sys \<Rightarrow> sys" where
  "monitor_cycle E s =
     (case get_all_tokens E (db s) of
        Inl e \<Rightarrow> add_log CycleError s
      | Inr tokens \<Rightarrow> foldl (token_step E) s tokens)"

text \<open>
  \<open>monitor_token_price\<close> never returns; the state after the first cycles, one
  environment for each, starting with \<open>last_tweet_time = 0\<close>.
\<close>

definition start :: "database \<Rightarrow> sys" where
  "start d = \<lparr>db = d, jobs = [], posted = [], last_tweet_time = 0, ticks = 0, trace = []\<rparr>"


section \<open>Ingestion endpoint\<close>

record TokenData =
  td_token :: string
  td_ca :: string
  marketCap :: string
  date :: string
  td_sourceType :: "string list"





section \<open>The process as a whole\<close>




section \<open>Reading the trace\<close>


fun sched_time :: "event \<Rightarrow> real option" where
  "sched_time (Scheduled a t ts) = Some ts"
| "sched_time e = None"


fun is_checking :: "event \<Rightarrow> bool" where
  "is_checking (Checking a) = True"
| "is_checking e = False"




text \<open>What a run added to the trace, and whether an event is an outcome of a tier.\<close>

definition new_events :: "sys \<Rightarrow> sys \<Rightarrow> event list" where
  "new_events s s' = drop (length (trace s)) (trace s')"

fun tier_event :: "string \<Rightarrow> int \<Rightarrow> event \<Rightarrow> bool" where
  "tier_event a t (Scheduled a' t' ts) = (a = a' \<and> t = t')"
| "tier_event a t (Deferred a' t' ts) = (a = a' \<and> t = t')"
| "tier_event a t (TierError a' t') = (a = a' \<and> t = t')"
| "tier_event a t e = False"

definition alerted :: "database \<Rightarrow> string \<Rightarrow> int \<Rightarrow> bool" where
  "alerted d addr m = list_ex (\<lambda>r. alert_ca r = addr \<and> alert_multiple r = m) (multiple_alerts d)"


section \<open>Example inputs\<close>

definition ex_pair :: pair where
  "ex_pair = \<lparr>fdv = Some (Fin 2500), priceUsd = Some (Fin 1), priceNative = Some (Fin 1),
     pairCreatedAt = Some 0, twitter = None\<rparr>"

definition ex_dex :: dex_json where
  "ex_dex = JObj (Pairs [ex_pair])"

definition ex_token :: "string \<Rightarrow> token_row" where
  "ex_token addr = \<lparr>ca = addr, token = ''TOK'', initial_mcap = Fin 100, last_alert_time = 0,
     received_time = ''2024-01-04 00:00:00'', sourceType = ''tg''\<rparr>"

text \<open>
  An environment where every token but \<open>DOWN\<close> answers with \<open>ex_dex\<close>, nothing else
  fails, and now is noon of 2024-01-04, in seconds since 2024-01-01.
\<close>

definition ex_env :: "(nat \<Rightarrow> real) \<Rightarrow> env" where
  "ex_env clk =
     \<lparr>requests_get = (\<lambda>r. if url r = url (fetch_request ''DOWN'') then Failed RequestException
                          else Response 200 (Some ex_dex)),
      clock = clk,
      db_fault = (\<lambda>op. False),
      add_job_fault = (\<lambda>t. False),
      sqlite_datetime = (\<lambda>s. if s = ''2024-01-04 00:00:00'' then Some 259200
                             else if s = ''2024-01-01 00:00:00'' then Some 0 else None),
      sqlite_now = 302400,
      okx_new = None,
      okx_get_quote = (\<lambda>a. Inl RequestException)\<rparr>"

definition ex_data :: "string \<Rightarrow> string \<Rightarrow> TokenData" where
  "ex_data addr mcap = \<lparr>td_token = ''TOK'', td_ca = addr, marketCap = mcap, date = ''2024-01-04 00:00:00'',
     td_sourceType = [''tg'']\<rparr>"

text \<open>A token first seen more than 72 hours before \<open>sqlite_now\<close> of \<open>ex_env\<close>.\<close>

definition ex_old_token :: token_row where
  "ex_old_token = (ex_token ''OLD'')\<lparr>received_time := ''2024-01-01 00:00:00''\<rparr>"

text \<open>A token with a zero baseline, and an environment where one ledger check fails.\<close>

definition ex_zero_token :: token_row where
  "ex_zero_token = (ex_token ''Z'')\<lparr>initial_mcap := Fin 0\<rparr>"

definition ex_env_locked :: "(nat \<Rightarrow> real) \<Rightarrow> env" where
  "ex_env_locked clk = (ex_env clk)\<lparr>db_fault := (\<lambda>op. op = CheckAlert ''B'' 5)\<rparr>"

text \<open>The tweet the monitor formats for \<open>ex_token ''B''\<close> at 25 times its baseline.\<close>

definition ex_tweet :: tweet where
  "ex_tweet = \<lparr>tw_token = ''TOK'', tw_ca = ''B'', tw_multiple = Fin 25,
     tw_received_time = ''2024-01-04 00:00:00'', tw_initial_mcap = Fin 100,
     tw_price_usd = Fin 1, tw_created_time = 0, tw_social = None\<rparr>"

text \<open>A database whose alert table has the \<open>max_market_cap\<close> column.\<close>

definition ex_db :: "token_row list \<Rightarrow> database" where
  "ex_db toks = new_db\<lparr>monitored_tokens := toks, alerts_has_mcap := True\<rparr>"

text \<open>The definitions a concrete run unfolds.\<close>

lemmas ex_defs = ex_env_def ex_env_locked_def ex_token_def ex_zero_token_def ex_old_token_def ex_dex_def
  ex_pair_def ex_db_def ex_data_def new_db_def start_def

lemmas loop_defs = monitor_cycle_def get_all_tokens_def token_step_def check_token_def
  fetch_dexscreener_data_def fetch_dexscreener_data_try_def fetch_request_def
  add_price_record_def first_fdv_def evaluate_def MULTIPLES_def tier_step_def alert_tier_def
  check_multiple_alerted_def TWEET_INTERVAL_def parse_dexscreener_data_def format_tweet_text_def
  schedule_tweet_def record_multiple_alert_def record_multiple_alert_try_def add_log_def Let_def
  is_digit_def dec_def digit_val_def


section \<open>Facts about \<open>float\<close> on digit strings\<close>











section \<open>\<open>parse_market_cap\<close>\<close>





section \<open>Market data client: failures are reported, not raised\<close>

text \<open>
  C8. For every token address and whatever the request does, \<open>fetch_dexscreener_data\<close>
  returns a value: the decoded JSON when the status is 200, and \<open>None\<close> on any other
  status, on a body that does not decode, and on any exception of the request (time-out,
  network error). The request it sends carries the fixed time-out of 10 seconds.
\<close>

theorem fetch_dexscreener_data_never_raises:
  "timeout (fetch_request a) = 10 \<and>
   (get (fetch_request a) = Response 200 (Some j) \<longrightarrow>
      fetch_dexscreener_data_try get a = Inr j \<and> fetch_dexscreener_data get a = j) \<and>
   (get (fetch_request a) = Response st body \<and> st \<noteq> 200 \<longrightarrow> fetch_dexscreener_data get a = JNull) \<and>
   (get (fetch_request a) = Response 200 None \<longrightarrow> fetch_dexscreener_data get a = JNull) \<and>
   (get (fetch_request a) = Failed e \<longrightarrow> fetch_dexscreener_data get a = JNull)"
  by (simp add: fetch_dexscreener_data_def fetch_dexscreener_data_try_def fetch_request_def)

theorem fetch_dexscreener_data_never_raises_witness:
  "fetch_dexscreener_data (\<lambda>r. Response 200 (Some ex_dex)) ''A'' = ex_dex \<and>
   fetch_dexscreener_data (\<lambda>r. Response 404 None) ''A'' = JNull \<and>
   fetch_dexscreener_data (\<lambda>r. Response 200 None) ''A'' = JNull \<and>
   fetch_dexscreener_data (\<lambda>r. if timeout r = 10 then Failed RequestException else Response 200 (Some ex_dex)) ''A'' = JNull"
  using fetch_dexscreener_data_never_raises [of "''A''" "\<lambda>r. Response 200 (Some ex_dex)" ex_dex 404 None RequestException]
    fetch_dexscreener_data_never_raises [of "''A''" "\<lambda>r. Response 404 None" ex_dex 404 None RequestException]
    fetch_dexscreener_data_never_raises [of "''A''" "\<lambda>r. Response 200 None" ex_dex 404 None RequestException]
    fetch_dexscreener_data_never_raises [of "''A''" "\<lambda>r. if timeout r = 10 then Failed RequestException else Response 200 (Some ex_dex)" ex_dex 404 None RequestException]
  by simp

section \<open>Alert ledger\<close>

text \<open>
  C1. On the table \<open>init_db\<close> creates, \<open>record_multiple_alert\<close> persists nothing: the
  \<open>INSERT\<close> names a column \<open>max_market_cap\<close> the table does not have, the error is
  caught, the call returns \<open>False\<close> and the tier still reads as not alerted. This holds
  for every address, tier and market cap.
\<close>

theorem record_multiple_alert_fails_on_init_db_schema:
  "record_multiple_alert E (init_db None) addr m mcap = (init_db None, False) \<and>
   multiple_alerts (fst (record_multiple_alert E (init_db None) addr m mcap)) = [] \<and>
   check_multiple_alerted E (fst (record_multiple_alert E (init_db None) addr m mcap)) addr m
     \<noteq> Inr True"
  by (simp add: record_multiple_alert_def record_multiple_alert_try_def init_db_def new_db_def
      check_multiple_alerted_def)

text \<open>
  On a table that has the column, the first call adds one row with the observed market
  cap and the second is rejected by the primary key and changes nothing.
\<close>

lemma record_multiple_alert_idempotent_with_column:
  assumes "alerts_has_mcap d" "\<not> db_fault E (RecordAlert addr m)" "\<not> alerted d addr m"
  shows "record_multiple_alert E d addr m mcap =
           (d\<lparr>multiple_alerts := multiple_alerts d @
               [\<lparr>alert_ca = addr, alert_multiple = m, max_market_cap = mcap\<rparr>]\<rparr>, True)"
    and "record_multiple_alert E (fst (record_multiple_alert E d addr m mcap)) addr m mcap' =
           (fst (record_multiple_alert E d addr m mcap), False)"
  using assms
  by (simp_all add: record_multiple_alert_def record_multiple_alert_try_def alerted_def)

section \<open>What one round of the tier loop does\<close>

text \<open>
  The four outcomes of one round of \<open>for target_multiple in MULTIPLES\<close>: nothing but
  clock readings (tier not reached, already alerted, or the provider data does not parse),
  a logged exception, a deferral by the spacing gate, or a scheduled alert.
\<close>

lemma tier_step_cases [case_names idle error deferred scheduled]:
  obtains
    (idle) k where
      "tier_step E tok dex cur mult s t = s\<lparr>ticks := ticks s + k\<rparr>"
      "\<not> pf_ge mult t \<or> check_multiple_alerted E (db s) (ca tok) t = Inr True
         \<or> parse_dexscreener_data dex = None"
  | (error) k where
      "tier_step E tok dex cur mult s t =
         s\<lparr>ticks := ticks s + k, trace := trace s @ [TierError (ca tok) t]\<rparr>"
      "pf_ge mult t"
  | (deferred)
      "tier_step E tok dex cur mult s t =
         s\<lparr>ticks := Suc (ticks s),
           trace := trace s @ [Deferred (ca tok) t (clock E (ticks s))]\<rparr>"
      "pf_ge mult t"
      "check_multiple_alerted E (db s) (ca tok) t = Inr False"
      "clock E (ticks s) - last_tweet_time s < TWEET_INTERVAL"
  | (scheduled) p tw where
      "tier_step E tok dex cur mult s t =
         s\<lparr>ticks := ticks s + 3,
           jobs := jobs s @ [\<lparr>run_date = clock E (Suc (ticks s)) + 1800, job_text = tw\<rparr>],
           db := fst (record_multiple_alert E (db s) (ca tok) t cur),
           last_tweet_time := clock E (Suc (Suc (ticks s))),
           trace := trace s @ [Scheduled (ca tok) t (clock E (ticks s))]\<rparr>"
      "pf_ge mult t"
      "check_multiple_alerted E (db s) (ca tok) t = Inr False"
      "\<not> clock E (ticks s) - last_tweet_time s < TWEET_INTERVAL"
      "parse_dexscreener_data dex = Some p"
      "format_tweet_text tok p mult = Inr tw"
      "\<not> add_job_fault E tw"
proof (cases "pf_ge mult t")
  case False
  then have "tier_step E tok dex cur mult s t = s\<lparr>ticks := ticks s + 0\<rparr>"
    by (simp add: tier_step_def)
  moreover from False have "\<not> pf_ge mult t \<or> check_multiple_alerted E (db s) (ca tok) t = Inr True
         \<or> parse_dexscreener_data dex = None" by simp
  ultimately show ?thesis by (rule idle)
next
  case ge: True
  show ?thesis
  proof (cases "check_multiple_alerted E (db s) (ca tok) t")
    case (Inl e)
    then have "tier_step E tok dex cur mult s t =
        s\<lparr>ticks := ticks s + 0, trace := trace s @ [TierError (ca tok) t]\<rparr>"
      using ge by (simp add: tier_step_def alert_tier_def add_log_def)
    then show ?thesis using ge by (rule error)
  next
    case (Inr al)
    show ?thesis
    proof (cases al)
      case True
      then have "tier_step E tok dex cur mult s t = s\<lparr>ticks := ticks s + 0\<rparr>"
        using ge Inr by (simp add: tier_step_def alert_tier_def)
      moreover from Inr True have "\<not> pf_ge mult t \<or> check_multiple_alerted E (db s) (ca tok) t = Inr True
         \<or> parse_dexscreener_data dex = None" by simp
      ultimately show ?thesis by (rule idle)
    next
      case nal: False
      show ?thesis
      proof (cases "clock E (ticks s) - last_tweet_time s < TWEET_INTERVAL")
        case True
        then have "tier_step E tok dex cur mult s t =
            s\<lparr>ticks := Suc (ticks s),
              trace := trace s @ [Deferred (ca tok) t (clock E (ticks s))]\<rparr>"
          using ge Inr nal by (simp add: tier_step_def alert_tier_def add_log_def Let_def)
        moreover from Inr nal have "check_multiple_alerted E (db s) (ca tok) t = Inr False" by simp
        ultimately show ?thesis using ge True by (intro deferred)
      next
        case gate: False
        show ?thesis
        proof (cases "parse_dexscreener_data dex")
          case None
          then have "tier_step E tok dex cur mult s t = s\<lparr>ticks := ticks s + 1\<rparr>"
            using ge Inr nal gate by (simp add: tier_step_def alert_tier_def Let_def)
          moreover from None have "\<not> pf_ge mult t \<or> check_multiple_alerted E (db s) (ca tok) t = Inr True
         \<or> parse_dexscreener_data dex = None" by simp
          ultimately show ?thesis by (rule idle)
        next
          case (Some p)
          show ?thesis
          proof (cases "format_tweet_text tok p mult")
            case (Inl e)
            then have "tier_step E tok dex cur mult s t =
                s\<lparr>ticks := ticks s + 1, trace := trace s @ [TierError (ca tok) t]\<rparr>"
              using ge Inr nal gate Some
              by (simp add: tier_step_def alert_tier_def add_log_def Let_def)
            then show ?thesis using ge by (rule error)
          next
            case fmt: (Inr tw)
            show ?thesis
            proof (cases "add_job_fault E tw")
              case True
              then have "tier_step E tok dex cur mult s t =
                  s\<lparr>ticks := ticks s + 2, trace := trace s @ [TierError (ca tok) t]\<rparr>"
                using ge Inr nal gate Some fmt
                by (simp add: tier_step_def alert_tier_def schedule_tweet_def add_log_def Let_def)
              then show ?thesis using ge by (rule error)
            next
              case False
              then have "tier_step E tok dex cur mult s t =
                  s\<lparr>ticks := ticks s + 3,
                    jobs := jobs s @ [\<lparr>run_date = clock E (Suc (ticks s)) + 1800, job_text = tw\<rparr>],
                    db := fst (record_multiple_alert E (db s) (ca tok) t cur),
                    last_tweet_time := clock E (Suc (Suc (ticks s))),
                    trace := trace s @ [Scheduled (ca tok) t (clock E (ticks s))]\<rparr>"
                using ge Inr nal gate Some fmt
                by (simp add: tier_step_def alert_tier_def schedule_tweet_def add_log_def Let_def)
              moreover from Inr nal have "check_multiple_alerted E (db s) (ca tok) t = Inr False" by simp
              ultimately show ?thesis using ge gate Some fmt False by (intro scheduled)
            qed
          qed
        qed
      qed
    qed
  qed
qed

section \<open>What the loops leave alone\<close>

lemma record_multiple_alert_frame:
  "monitored_tokens (fst (record_multiple_alert E d a m c)) = monitored_tokens d"
  "alerts_has_mcap (fst (record_multiple_alert E d a m c)) = alerts_has_mcap d"
  by (simp_all add: record_multiple_alert_def record_multiple_alert_try_def)

lemma add_price_record_frame:
  "monitored_tokens (fst (add_price_record E d a dex)) = monitored_tokens d"
  "multiple_alerts (fst (add_price_record E d a dex)) = multiple_alerts d"
  "alerts_has_mcap (fst (add_price_record E d a dex)) = alerts_has_mcap d"
  by (simp_all add: add_price_record_def split: dex_json.splits jpairs.splits list.splits option.splits)

lemma tier_step_frame:
  "monitored_tokens (db (tier_step E tok dex cur mult s t)) = monitored_tokens (db s)"
  "posted (tier_step E tok dex cur mult s t) = posted s"
  "filter is_checking (trace (tier_step E tok dex cur mult s t)) = filter is_checking (trace s)"
  by (cases rule: tier_step_cases[of E tok dex cur mult s t]; simp add: record_multiple_alert_frame)+

lemma evaluate_frame:
  "monitored_tokens (db (evaluate tiers E tok dex cur mult s)) = monitored_tokens (db s) \<and>
   posted (evaluate tiers E tok dex cur mult s) = posted s \<and>
   filter is_checking (trace (evaluate tiers E tok dex cur mult s)) = filter is_checking (trace s)"
proof (induction tiers arbitrary: s)
  case Nil
  show ?case by (simp add: evaluate_def)
next
  case (Cons t ts)
  have "evaluate (t # ts) E tok dex cur mult s =
        evaluate ts E tok dex cur mult (tier_step E tok dex cur mult s t)"
    by (simp add: evaluate_def)
  then show ?case
    using Cons[of "tier_step E tok dex cur mult s t"]
    by (simp add: tier_step_frame)
qed

lemma token_step_cases [case_names unavailable error evaluated]:
  obtains
    (unavailable)
      "token_step E s tok = s\<lparr>trace := trace s @ [Checking (ca tok), Unavailable (ca tok)]\<rparr>"
      "\<not> truthy (fetch_dexscreener_data (requests_get E) (ca tok))"
  | (error)
      "token_step E s tok =
         s\<lparr>db := fst (add_price_record E (db s) (ca tok)
                      (fetch_dexscreener_data (requests_get E) (ca tok))),
           trace := trace s @ [Checking (ca tok), TokenError (ca tok)]\<rparr>"
      "truthy (fetch_dexscreener_data (requests_get E) (ca tok))"
  | (evaluated) cur mult where
      "token_step E s tok =
         evaluate MULTIPLES E tok (fetch_dexscreener_data (requests_get E) (ca tok)) cur mult
           (s\<lparr>trace := trace s @ [Checking (ca tok)],
              db := fst (add_price_record E (db s) (ca tok)
                      (fetch_dexscreener_data (requests_get E) (ca tok)))\<rparr>)"
      "truthy (fetch_dexscreener_data (requests_get E) (ca tok))"
      "first_fdv (fetch_dexscreener_data (requests_get E) (ca tok)) = Inr cur"
      "pf_div cur (initial_mcap tok) = Inr mult"
proof (cases "truthy (fetch_dexscreener_data (requests_get E) (ca tok))")
  case False
  then have "token_step E s tok =
      s\<lparr>trace := trace s @ [Checking (ca tok), Unavailable (ca tok)]\<rparr>"
    by (simp add: token_step_def check_token_def add_log_def Let_def)
  then show ?thesis using False by (rule unavailable)
next
  case tr: True
  show ?thesis
  proof (cases "first_fdv (fetch_dexscreener_data (requests_get E) (ca tok))")
    case (Inl e)
    then have "token_step E s tok =
         s\<lparr>db := fst (add_price_record E (db s) (ca tok)
                      (fetch_dexscreener_data (requests_get E) (ca tok))),
           trace := trace s @ [Checking (ca tok), TokenError (ca tok)]\<rparr>"
      using tr by (simp add: token_step_def check_token_def add_log_def Let_def)
    then show ?thesis using tr by (rule error)
  next
    case cur: (Inr cur)
    show ?thesis
    proof (cases "pf_div cur (initial_mcap tok)")
      case (Inl e)
      then have "token_step E s tok =
           s\<lparr>db := fst (add_price_record E (db s) (ca tok)
                        (fetch_dexscreener_data (requests_get E) (ca tok))),
             trace := trace s @ [Checking (ca tok), TokenError (ca tok)]\<rparr>"
        using tr cur by (simp add: token_step_def check_token_def add_log_def Let_def)
      then show ?thesis using tr by (rule error)
    next
      case (Inr mult)
      then have "token_step E s tok =
         evaluate MULTIPLES E tok (fetch_dexscreener_data (requests_get E) (ca tok)) cur mult
           (s\<lparr>trace := trace s @ [Checking (ca tok)],
              db := fst (add_price_record E (db s) (ca tok)
                      (fetch_dexscreener_data (requests_get E) (ca tok)))\<rparr>)"
        using tr cur by (simp add: token_step_def check_token_def add_log_def Let_def)
      then show ?thesis using tr cur Inr by (rule evaluated)
    qed
  qed
qed

lemma token_step_frame:
  "monitored_tokens (db (token_step E s tok)) = monitored_tokens (db s) \<and>
   posted (token_step E s tok) = posted s \<and>
   filter is_checking (trace (token_step E s tok)) = filter is_checking (trace s) @ [Checking (ca tok)]"
proof (cases rule: token_step_cases[of E s tok])
  case unavailable
  then show ?thesis by simp
next
  case error
  then show ?thesis by (simp add: add_price_record_frame)
next
  case (evaluated cur mult)
  then show ?thesis
    by (simp add: evaluate_frame add_price_record_frame)
qed

lemma tokens_loop_frame:
  "monitored_tokens (db (foldl (token_step E) s toks)) = monitored_tokens (db s) \<and>
   posted (foldl (token_step E) s toks) = posted s \<and>
   filter is_checking (trace (foldl (token_step E) s toks)) =
     filter is_checking (trace s) @ map (\<lambda>tok. Checking (ca tok)) toks"
proof (induction toks arbitrary: s)
  case Nil
  show ?case by simp
next
  case (Cons tok toks)
  show ?case
    using Cons[of "token_step E s tok"]
    by (simp add: token_step_frame)
qed

section \<open>What the loops print\<close>








section \<open>Isolation of failures\<close>

text \<open>
  C6. In a polling cycle every token of the loaded list is checked, in the order of the
  list and whatever happens to the tokens before it. A token whose market data is
  unavailable changes nothing but the log, and the loop goes on with the next token from
  that state; an exception while a token is processed is logged and the loop goes on with
  the next token; an exception while a tier is processed is logged and the loop goes on
  with the next tier.
\<close>

theorem monitor_cycle_isolates_failures:
  "(get_all_tokens E (db s) = Inr toks \<longrightarrow>
      filter is_checking (trace (monitor_cycle E s)) =
        filter is_checking (trace s) @ map (\<lambda>tok. Checking (ca tok)) toks) \<and>
   (\<not> truthy (fetch_dexscreener_data (requests_get E) (ca tok)) \<longrightarrow>
      token_step E s tok = s\<lparr>trace := trace s @ [Checking (ca tok), Unavailable (ca tok)]\<rparr> \<and>
      foldl (token_step E) s (tok # rest) =
        foldl (token_step E) (s\<lparr>trace := trace s @ [Checking (ca tok), Unavailable (ca tok)]\<rparr>) rest) \<and>
   (fst (check_token E tok s) = Some e \<longrightarrow>
      token_step E s tok = add_log (TokenError (ca tok)) (snd (check_token E tok s)) \<and>
      foldl (token_step E) s (tok # rest) =
        foldl (token_step E) (add_log (TokenError (ca tok)) (snd (check_token E tok s))) rest) \<and>
   (pf_ge mult t \<and> fst (alert_tier E tok dex cur mult t s) = Some e \<longrightarrow>
      tier_step E tok dex cur mult s t =
        add_log (TierError (ca tok) t) (snd (alert_tier E tok dex cur mult t s)) \<and>
      evaluate (t # ts) E tok dex cur mult s =
        evaluate ts E tok dex cur mult
          (add_log (TierError (ca tok) t) (snd (alert_tier E tok dex cur mult t s))))"
proof (intro conjI impI)
  assume "get_all_tokens E (db s) = Inr toks"
  then show "filter is_checking (trace (monitor_cycle E s)) =
        filter is_checking (trace s) @ map (\<lambda>tok. Checking (ca tok)) toks"
    by (simp add: monitor_cycle_def tokens_loop_frame)
next
  assume a: "\<not> truthy (fetch_dexscreener_data (requests_get E) (ca tok))"
  then show u: "token_step E s tok = s\<lparr>trace := trace s @ [Checking (ca tok), Unavailable (ca tok)]\<rparr>"
    by (simp add: token_step_def check_token_def add_log_def Let_def)
  then show "foldl (token_step E) s (tok # rest) =
        foldl (token_step E) (s\<lparr>trace := trace s @ [Checking (ca tok), Unavailable (ca tok)]\<rparr>) rest"
    by simp
next
  assume a: "fst (check_token E tok s) = Some e"
  then show u: "token_step E s tok = add_log (TokenError (ca tok)) (snd (check_token E tok s))"
    by (cases "check_token E tok s") (simp add: token_step_def)
  then show "foldl (token_step E) s (tok # rest) =
        foldl (token_step E) (add_log (TokenError (ca tok)) (snd (check_token E tok s))) rest"
    by simp
next
  assume a: "pf_ge mult t \<and> fst (alert_tier E tok dex cur mult t s) = Some e"
  then show u: "tier_step E tok dex cur mult s t =
        add_log (TierError (ca tok) t) (snd (alert_tier E tok dex cur mult t s))"
    by (cases "alert_tier E tok dex cur mult t s") (simp add: tier_step_def)
  then show "evaluate (t # ts) E tok dex cur mult s =
        evaluate ts E tok dex cur mult
          (add_log (TierError (ca tok) t) (snd (alert_tier E tok dex cur mult t s)))"
    by (simp add: evaluate_def)
qed

theorem monitor_cycle_isolates_failures_witness:
  "get_all_tokens (ex_env (\<lambda>n. 1000)) (db (start (ex_db [ex_token ''DOWN'', ex_token ''B''])))
     = Inr [ex_token ''DOWN'', ex_token ''B''] \<and>
   filter is_checking
     (trace (monitor_cycle (ex_env (\<lambda>n. 1000)) (start (ex_db [ex_token ''DOWN'', ex_token ''B'']))))
     = [Checking ''DOWN'', Checking ''B''] \<and>
   trace (monitor_cycle (ex_env (\<lambda>n. 1000)) (start (ex_db [ex_token ''DOWN'', ex_token ''B''])))
     = [Checking ''DOWN'', Unavailable ''DOWN'', Checking ''B'', Scheduled ''B'' 5 1000,
        Deferred ''B'' 10 1000, Deferred ''B'' 20 1000] \<and>
   \<not> truthy (fetch_dexscreener_data (requests_get (ex_env (\<lambda>n. 1000))) (ca (ex_token ''DOWN''))) \<and>
   trace (token_step (ex_env (\<lambda>n. 1000)) (start (ex_db [])) (ex_token ''DOWN''))
     = [Checking ''DOWN'', Unavailable ''DOWN''] \<and>
   fst (check_token (ex_env (\<lambda>n. 1000)) ex_zero_token (start (ex_db []))) = Some ZeroDivisionError \<and>
   trace (token_step (ex_env (\<lambda>n. 1000)) (start (ex_db [])) ex_zero_token)
     = [Checking ''Z'', TokenError ''Z''] \<and>
   trace (foldl (token_step (ex_env (\<lambda>n. 1000))) (start (ex_db [])) [ex_zero_token, ex_token ''B''])
     = [Checking ''Z'', TokenError ''Z'', Checking ''B'', Scheduled ''B'' 5 1000,
        Deferred ''B'' 10 1000, Deferred ''B'' 20 1000] \<and>
   fst (alert_tier (ex_env_locked (\<lambda>n. 1000)) (ex_token ''B'') ex_dex (Fin 2500) (Fin 25) 5
         (start (ex_db []))) = Some OperationalError \<and>
   trace (evaluate [5, 10] (ex_env_locked (\<lambda>n. 1000)) (ex_token ''B'') ex_dex (Fin 2500) (Fin 25)
         (start (ex_db [])))
     = [TierError ''B'' 5, Scheduled ''B'' 10 1000]"
proof -
  note T = monitor_cycle_isolates_failures
  let ?E = "ex_env (\<lambda>n. 1000)"
  let ?L = "ex_env_locked (\<lambda>n. 1000)"
  let ?s = "start (ex_db [ex_token ''DOWN'', ex_token ''B''])"
  let ?z = "start (ex_db [])"
  have h1: "get_all_tokens ?E (db ?s) = Inr [ex_token ''DOWN'', ex_token ''B'']"
    by code_simp
  have c1: "filter is_checking (trace (monitor_cycle ?E ?s)) =
      filter is_checking (trace ?s) @ map (\<lambda>tok. Checking (ca tok)) [ex_token ''DOWN'', ex_token ''B'']"
    by (rule T[THEN conjunct1, rule_format, OF h1])
  have c1': "trace (monitor_cycle ?E ?s) = [Checking ''DOWN'', Unavailable ''DOWN'', Checking ''B'',
      Scheduled ''B'' 5 1000, Deferred ''B'' 10 1000, Deferred ''B'' 20 1000]"
    by (simp add: ex_defs loop_defs)
  have h2: "\<not> truthy (fetch_dexscreener_data (requests_get ?E) (ca (ex_token ''DOWN'')))"
    by (simp add: ex_defs loop_defs)
  have c2: "token_step ?E ?z (ex_token ''DOWN'') =
      ?z\<lparr>trace := trace ?z @ [Checking (ca (ex_token ''DOWN'')), Unavailable (ca (ex_token ''DOWN''))]\<rparr>"
    by (rule T[THEN conjunct2, THEN conjunct1, rule_format, OF h2, THEN conjunct1])
  have h3: "fst (check_token ?E ex_zero_token ?z) = Some ZeroDivisionError"
    by (simp add: ex_defs loop_defs)
  have c3: "foldl (token_step ?E) ?z (ex_zero_token # [ex_token ''B'']) =
      foldl (token_step ?E) (add_log (TokenError (ca ex_zero_token)) (snd (check_token ?E ex_zero_token ?z)))
        [ex_token ''B'']"
    and c3': "token_step ?E ?z ex_zero_token =
      add_log (TokenError (ca ex_zero_token)) (snd (check_token ?E ex_zero_token ?z))"
    using T[THEN conjunct2, THEN conjunct2, THEN conjunct1, rule_format, OF h3] by blast+
  have h4: "pf_ge (Fin 25) 5 \<and>
      fst (alert_tier ?L (ex_token ''B'') ex_dex (Fin 2500) (Fin 25) 5 ?z) = Some OperationalError"
    by (simp add: ex_defs loop_defs)
  have c4: "evaluate (5 # [10]) ?L (ex_token ''B'') ex_dex (Fin 2500) (Fin 25) ?z =
      evaluate [10] ?L (ex_token ''B'') ex_dex (Fin 2500) (Fin 25)
        (add_log (TierError (ca (ex_token ''B'')) 5)
           (snd (alert_tier ?L (ex_token ''B'') ex_dex (Fin 2500) (Fin 25) 5 ?z)))"
    by (rule T[THEN conjunct2, THEN conjunct2, THEN conjunct2, rule_format, OF h4, THEN conjunct2])
  have e2: "trace (token_step ?E ?z (ex_token ''DOWN'')) = [Checking ''DOWN'', Unavailable ''DOWN'']"
    unfolding c2 by (simp add: ex_defs)
  have e3: "trace (token_step ?E ?z ex_zero_token) = [Checking ''Z'', TokenError ''Z'']"
    unfolding c3' by (simp add: ex_defs loop_defs)
  have e3': "trace (foldl (token_step ?E) ?z [ex_zero_token, ex_token ''B''])
     = [Checking ''Z'', TokenError ''Z'', Checking ''B'', Scheduled ''B'' 5 1000,
        Deferred ''B'' 10 1000, Deferred ''B'' 20 1000]"
    unfolding c3 by (simp add: ex_defs loop_defs)
  have e4: "trace (evaluate [5, 10] ?L (ex_token ''B'') ex_dex (Fin 2500) (Fin 25) ?z)
     = [TierError ''B'' 5, Scheduled ''B'' 10 1000]"
    unfolding c4 by (simp add: ex_defs loop_defs)
  have e1: "filter is_checking (trace (monitor_cycle ?E ?s)) = [Checking ''DOWN'', Checking ''B'']"
    unfolding c1 by (simp add: ex_defs)
  show ?thesis
    using h1 e1 c1' h2 e2 h3 e3 e3' h4 e4 by blast
qed

section \<open>The active set\<close>












section \<open>Submissions with a market cap that is not positive\<close>








section \<open>Scheduling and delivery\<close>

lemma record_then_alerted:
  "alerts_has_mcap d \<Longrightarrow> \<not> db_fault E (RecordAlert a m) \<Longrightarrow>
   alerted (fst (record_multiple_alert E d a m c)) a m"
  by (simp add: record_multiple_alert_def record_multiple_alert_try_def alerted_def)

lemma tier_step_job_added:
  assumes "jobs (tier_step E tok dex cur mult s t) \<noteq> jobs s"
  shows "(\<exists>tw. jobs (tier_step E tok dex cur mult s t) =
            jobs s @ [\<lparr>run_date = clock E (Suc (ticks s)) + 60 * 30, job_text = tw\<rparr>]) \<and>
         db (tier_step E tok dex cur mult s t) =
            fst (record_multiple_alert E (db s) (ca tok) t cur) \<and>
         posted (tier_step E tok dex cur mult s t) = posted s"
proof (cases rule: tier_step_cases[of E tok dex cur mult s t])
  case (idle k)
  then show ?thesis using assms by simp
next
  case (error k)
  then show ?thesis using assms by simp
next
  case deferred
  then show ?thesis using assms by simp
next
  case (scheduled p tw)
  then show ?thesis by simp
qed

text \<open>
  C7. \<open>schedule_tweet\<close> never sends: it adds a job at the clock reading plus
  \<open>delay_minutes\<close> and leaves the posted tweets and the database alone (when adding the
  job raises, nothing is queued). Whenever a round of the tier loop queues a job, the job
  is due 30 minutes after the reading, the ledger write \<open>record_multiple_alert\<close> is made
  in that same round, and, where the table takes the write, the tier reads as alerted from
  then on. When the scheduler later runs a job, the job leaves the queue whatever the
  posting API answers (no retry), the database is not touched (no roll-back), and only an
  answer 201 counts as posted.
\<close>

theorem dispatcher_schedules_and_never_rolls_back:
  "(schedule_tweet E text delay s = (r, s') \<longrightarrow>
      posted s' = posted s \<and> db s' = db s \<and>
      (r = None \<longrightarrow> jobs s' = jobs s @
          [\<lparr>run_date = clock E (ticks s) + 60 * real_of_int delay, job_text = text\<rparr>]) \<and>
      (r \<noteq> None \<longrightarrow> jobs s' = jobs s)) \<and>
   (jobs (tier_step E tok dex cur mult s t) \<noteq> jobs s \<longrightarrow>
      (\<exists>tw. jobs (tier_step E tok dex cur mult s t) =
            jobs s @ [\<lparr>run_date = clock E (Suc (ticks s)) + 60 * 30, job_text = tw\<rparr>]) \<and>
      db (tier_step E tok dex cur mult s t) =
            fst (record_multiple_alert E (db s) (ca tok) t cur) \<and>
      posted (tier_step E tok dex cur mult s t) = posted s) \<and>
   (jobs (tier_step E tok dex cur mult s t) \<noteq> jobs s \<and> alerts_has_mcap (db s) \<and>
      \<not> db_fault E (RecordAlert (ca tok) t) \<longrightarrow>
      alerted (db (tier_step E tok dex cur mult s t)) (ca tok) t) \<and>
   db (run_job oauth_post i s) = db s \<and>
   (i < length (jobs s) \<longrightarrow>
      jobs (run_job oauth_post i s) = take i (jobs s) @ drop (Suc i) (jobs s)) \<and>
   (i < length (jobs s) \<and> oauth_post (job_text (jobs s ! i)) \<noteq> Some 201 \<longrightarrow>
      posted (run_job oauth_post i s) = posted s) \<and>
   (i < length (jobs s) \<and> oauth_post (job_text (jobs s ! i)) = Some 201 \<longrightarrow>
      posted (run_job oauth_post i s) = posted s @ [job_text (jobs s ! i)])"
proof (intro conjI impI)
  assume a: "schedule_tweet E text delay s = (r, s')"
  show "posted s' = posted s"
    using a by (cases "add_job_fault E text") (auto simp: schedule_tweet_def Let_def)
  show "db s' = db s"
    using a by (cases "add_job_fault E text") (auto simp: schedule_tweet_def Let_def)
  {
    assume "r = None"
    then show "jobs s' = jobs s @
          [\<lparr>run_date = clock E (ticks s) + 60 * real_of_int delay, job_text = text\<rparr>]"
      using a by (cases "add_job_fault E text") (auto simp: schedule_tweet_def Let_def)
  }
  {
    assume "r \<noteq> None"
    then show "jobs s' = jobs s"
      using a by (cases "add_job_fault E text") (auto simp: schedule_tweet_def Let_def)
  }
next
  assume a: "jobs (tier_step E tok dex cur mult s t) \<noteq> jobs s"
  show "\<exists>tw. jobs (tier_step E tok dex cur mult s t) =
            jobs s @ [\<lparr>run_date = clock E (Suc (ticks s)) + 60 * 30, job_text = tw\<rparr>]"
    using tier_step_job_added[OF a] by blast
  show "db (tier_step E tok dex cur mult s t) =
            fst (record_multiple_alert E (db s) (ca tok) t cur)"
    using tier_step_job_added[OF a] by blast
  show "posted (tier_step E tok dex cur mult s t) = posted s"
    using tier_step_job_added[OF a] by blast
next
  assume a: "jobs (tier_step E tok dex cur mult s t) \<noteq> jobs s \<and> alerts_has_mcap (db s) \<and>
      \<not> db_fault E (RecordAlert (ca tok) t)"
  then have "db (tier_step E tok dex cur mult s t) =
            fst (record_multiple_alert E (db s) (ca tok) t cur)"
    using tier_step_job_added by blast
  then show "alerted (db (tier_step E tok dex cur mult s t)) (ca tok) t"
    using a by (simp add: record_then_alerted)
next
  show "db (run_job oauth_post i s) = db s"
    by (simp add: run_job_def Let_def)
next
  assume "i < length (jobs s)"
  then show "jobs (run_job oauth_post i s) = take i (jobs s) @ drop (Suc i) (jobs s)"
    by (simp add: run_job_def Let_def)
next
  assume "i < length (jobs s) \<and> oauth_post (job_text (jobs s ! i)) \<noteq> Some 201"
  then show "posted (run_job oauth_post i s) = posted s"
    by (cases "oauth_post (job_text (jobs s ! i))") (simp_all add: run_job_def send_tweet_def Let_def)
next
  assume "i < length (jobs s) \<and> oauth_post (job_text (jobs s ! i)) = Some 201"
  then show "posted (run_job oauth_post i s) = posted s @ [job_text (jobs s ! i)]"
    by (simp add: run_job_def send_tweet_def Let_def)
qed

theorem dispatcher_schedules_and_never_rolls_back_witness:
  "schedule_tweet (ex_env (\<lambda>n. 1000)) ex_tweet 30 (start (ex_db [])) =
     (None, (start (ex_db []))\<lparr>ticks := 1, jobs := [\<lparr>run_date = 2800, job_text = ex_tweet\<rparr>]\<rparr>) \<and>
   jobs (tier_step (ex_env (\<lambda>n. 1000)) (ex_token ''B'') ex_dex (Fin 2500) (Fin 25) (start (ex_db [])) 5)
     = [\<lparr>run_date = 2800, job_text = ex_tweet\<rparr>] \<and>
   posted (tier_step (ex_env (\<lambda>n. 1000)) (ex_token ''B'') ex_dex (Fin 2500) (Fin 25) (start (ex_db [])) 5)
     = [] \<and>
   alerted (db (tier_step (ex_env (\<lambda>n. 1000)) (ex_token ''B'') ex_dex (Fin 2500) (Fin 25)
     (start (ex_db [])) 5)) ''B'' 5 \<and>
   jobs (run_job (\<lambda>text. Some 403) 0
     (tier_step (ex_env (\<lambda>n. 1000)) (ex_token ''B'') ex_dex (Fin 2500) (Fin 25) (start (ex_db [])) 5))
     = [] \<and>
   posted (run_job (\<lambda>text. Some 403) 0
     (tier_step (ex_env (\<lambda>n. 1000)) (ex_token ''B'') ex_dex (Fin 2500) (Fin 25) (start (ex_db [])) 5))
     = [] \<and>
   alerted (db (run_job (\<lambda>text. Some 403) 0
     (tier_step (ex_env (\<lambda>n. 1000)) (ex_token ''B'') ex_dex (Fin 2500) (Fin 25) (start (ex_db [])) 5)))
     ''B'' 5 \<and>
   posted (run_job (\<lambda>text. Some 201) 0
     (tier_step (ex_env (\<lambda>n. 1000)) (ex_token ''B'') ex_dex (Fin 2500) (Fin 25) (start (ex_db [])) 5))
     = [ex_tweet]"
proof -
  let ?E = "ex_env (\<lambda>n. 1000)"
  let ?z = "start (ex_db [])"
  let ?B = "ex_token ''B''"
  let ?u = "tier_step ?E ?B ex_dex (Fin 2500) (Fin 25) ?z 5"
  let ?no = "\<lambda>text::tweet. Some (403::int)"
  let ?yes = "\<lambda>text::tweet. Some (201::int)"
  note T = dispatcher_schedules_and_never_rolls_back
  have sc: "schedule_tweet ?E ex_tweet 30 ?z =
     (None, ?z\<lparr>ticks := 1, jobs := [\<lparr>run_date = 2800, job_text = ex_tweet\<rparr>]\<rparr>)"
    by (simp add: schedule_tweet_def ex_defs Let_def)
  have sc': "jobs (?z\<lparr>ticks := 1, jobs := [\<lparr>run_date = 2800, job_text = ex_tweet\<rparr>]\<rparr>) = jobs ?z @
          [\<lparr>run_date = clock ?E (ticks ?z) + 60 * real_of_int 30, job_text = ex_tweet\<rparr>]"
    using T[THEN conjunct1, rule_format, OF sc] by blast
  have j: "jobs ?u = [\<lparr>run_date = 2800, job_text = ex_tweet\<rparr>]"
    by (simp add: ex_defs loop_defs ex_tweet_def)
  have ne: "jobs ?u \<noteq> jobs ?z"
    unfolding j by (simp add: start_def)
  have p: "posted ?u = posted ?z"
    using T[THEN conjunct2, THEN conjunct1, rule_format, OF ne] by blast
  have h: "jobs ?u \<noteq> jobs ?z \<and> alerts_has_mcap (db ?z) \<and> \<not> db_fault ?E (RecordAlert (ca ?B) 5)"
    using ne by (simp add: ex_defs)
  have al: "alerted (db ?u) (ca ?B) 5"
    by (rule T[THEN conjunct2, THEN conjunct2, THEN conjunct1, rule_format, OF h])
  have d: "db (run_job ?no 0 ?u) = db ?u"
    by (rule T[THEN conjunct2, THEN conjunct2, THEN conjunct2, THEN conjunct1])
  have i: "0 < length (jobs ?u)"
    unfolding j by simp
  have rj: "jobs (run_job ?no 0 ?u) = take 0 (jobs ?u) @ drop (Suc 0) (jobs ?u)"
    by (rule T[THEN conjunct2, THEN conjunct2, THEN conjunct2, THEN conjunct2, THEN conjunct1,
          rule_format, OF i])
  have i': "0 < length (jobs ?u) \<and> ?no (job_text (jobs ?u ! 0)) \<noteq> Some 201"
    using i by simp
  have rp: "posted (run_job ?no 0 ?u) = posted ?u"
    by (rule T[THEN conjunct2, THEN conjunct2, THEN conjunct2, THEN conjunct2, THEN conjunct2,
          THEN conjunct1, rule_format, OF i'])
  have i'': "0 < length (jobs ?u) \<and> ?yes (job_text (jobs ?u ! 0)) = Some 201"
    using i by simp
  have ry: "posted (run_job ?yes 0 ?u) = posted ?u @ [job_text (jobs ?u ! 0)]"
    by (rule T[THEN conjunct2, THEN conjunct2, THEN conjunct2, THEN conjunct2, THEN conjunct2,
          THEN conjunct2, rule_format, OF i''])
  have pz: "posted ?z = []" by (simp add: start_def)
  have cb: "ca ?B = ''B''" by (simp add: ex_token_def)
  show ?thesis
    using sc j al d rj rp ry unfolding p pz cb by (simp add: j)
qed

section \<open>Spacing of scheduled alerts\<close>














section \<open>The tiers of one evaluation\<close>

lemma alerted_after_record:
  "m' \<noteq> m \<Longrightarrow> alerted (fst (record_multiple_alert E d a m c)) a m' = alerted d a m'"
  by (simp add: record_multiple_alert_def record_multiple_alert_try_def alerted_def)

lemma check_alerted:
  "check_multiple_alerted E d a m = Inr b \<Longrightarrow> b = alerted d a m"
  by (cases "db_fault E (CheckAlert a m)") (simp_all add: check_multiple_alerted_def alerted_def)

lemma new_events_append: "trace s' = trace s @ evs \<Longrightarrow> new_events s s' = evs"
  by (simp add: new_events_def)

lemma pf_ge_mono: "pf_ge mult t2 \<Longrightarrow> t1 \<le> t2 \<Longrightarrow> pf_ge mult t1"
  by (cases mult) simp_all

text \<open>
  What one round adds to the trace, and what it leaves of the ledger, for the other tiers.
\<close>

lemma tier_step_summary:
  "\<exists>evs. trace (tier_step E tok dex cur mult s t) = trace s @ evs \<and>
     (\<forall>t'. t' \<noteq> t \<longrightarrow> alerted (db (tier_step E tok dex cur mult s t)) (ca tok) t'
                          = alerted (db s) (ca tok) t') \<and>
     (\<forall>ev\<in>set evs. tier_event (ca tok) t ev) \<and>
     (\<forall>ev\<in>set evs. sched_time ev \<noteq> None \<longrightarrow>
          pf_ge mult t \<and> parse_dexscreener_data dex \<noteq> None) \<and>
     (pf_ge mult t \<and> parse_dexscreener_data dex \<noteq> None \<longrightarrow>
          alerted (db s) (ca tok) t \<or> evs \<noteq> [])"
proof (cases rule: tier_step_cases[of E tok dex cur mult s t])
  case (idle k)
  have "pf_ge mult t \<and> parse_dexscreener_data dex \<noteq> None \<longrightarrow> alerted (db s) (ca tok) t"
    using idle(2) check_alerted[of E "db s" "ca tok" t True] by auto
  then show ?thesis
    by (intro exI[of _ "[]"]) (simp add: idle(1))
next
  case (error k)
  show ?thesis
    by (intro exI[of _ "[TierError (ca tok) t]"]) (simp add: error(1))
next
  case deferred
  show ?thesis
    by (intro exI[of _ "[Deferred (ca tok) t (clock E (ticks s))]"]) (simp add: deferred(1))
next
  case (scheduled p tw)
  show ?thesis
    by (intro exI[of _ "[Scheduled (ca tok) t (clock E (ticks s))]"])
       (simp add: scheduled(1,2,5) alerted_after_record)
qed

lemma evaluate_summary:
  "distinct tiers \<Longrightarrow>
   \<exists>evs. trace (evaluate tiers E tok dex cur mult s) = trace s @ evs \<and>
     (\<forall>t ts. Scheduled (ca tok) t ts \<in> set evs \<longrightarrow>
          t \<in> set tiers \<and> pf_ge mult t \<and> parse_dexscreener_data dex \<noteq> None) \<and>
     (\<forall>t\<in>set tiers. pf_ge mult t \<and> parse_dexscreener_data dex \<noteq> None \<longrightarrow>
          alerted (db s) (ca tok) t \<or> list_ex (tier_event (ca tok) t) evs)"
proof (induction tiers arbitrary: s)
  case Nil
  show ?case by (simp add: evaluate_def)
next
  case (Cons t ts)
  let ?s1 = "tier_step E tok dex cur mult s t"
  obtain evs1 where 1: "trace ?s1 = trace s @ evs1"
    and a1: "\<forall>t'. t' \<noteq> t \<longrightarrow> alerted (db ?s1) (ca tok) t' = alerted (db s) (ca tok) t'"
    and e1: "\<forall>ev\<in>set evs1. tier_event (ca tok) t ev"
    and s1: "\<forall>ev\<in>set evs1. sched_time ev \<noteq> None \<longrightarrow>
          pf_ge mult t \<and> parse_dexscreener_data dex \<noteq> None"
    and c1: "pf_ge mult t \<and> parse_dexscreener_data dex \<noteq> None \<longrightarrow>
          alerted (db s) (ca tok) t \<or> evs1 \<noteq> []"
    using tier_step_summary[of E tok dex cur mult s t] by blast
  have dts: "distinct ts" and nt: "t \<notin> set ts"
    using Cons.prems by simp_all
  obtain evs2 where 2: "trace (evaluate ts E tok dex cur mult ?s1) = trace ?s1 @ evs2"
    and s2: "\<forall>t' ts'. Scheduled (ca tok) t' ts' \<in> set evs2 \<longrightarrow>
          t' \<in> set ts \<and> pf_ge mult t' \<and> parse_dexscreener_data dex \<noteq> None"
    and c2: "\<forall>t'\<in>set ts. pf_ge mult t' \<and> parse_dexscreener_data dex \<noteq> None \<longrightarrow>
          alerted (db ?s1) (ca tok) t' \<or> list_ex (tier_event (ca tok) t') evs2"
    using Cons.IH[OF dts, of ?s1] by blast
  have e: "evaluate (t # ts) E tok dex cur mult s = evaluate ts E tok dex cur mult ?s1"
    by (simp add: evaluate_def)
  have t: "trace (evaluate (t # ts) E tok dex cur mult s) = trace s @ (evs1 @ evs2)"
    using 1 2 e by simp
  have A: "\<forall>t' ts'. Scheduled (ca tok) t' ts' \<in> set (evs1 @ evs2) \<longrightarrow>
          t' \<in> set (t # ts) \<and> pf_ge mult t' \<and> parse_dexscreener_data dex \<noteq> None"
  proof (intro allI impI)
    fix t' ts'
    assume "Scheduled (ca tok) t' ts' \<in> set (evs1 @ evs2)"
    then consider "Scheduled (ca tok) t' ts' \<in> set evs1" | "Scheduled (ca tok) t' ts' \<in> set evs2"
      by auto
    then show "t' \<in> set (t # ts) \<and> pf_ge mult t' \<and> parse_dexscreener_data dex \<noteq> None"
    proof cases
      case 1
      then have "tier_event (ca tok) t (Scheduled (ca tok) t' ts')" using e1 by blast
      then have "t' = t" by simp
      moreover have "pf_ge mult t \<and> parse_dexscreener_data dex \<noteq> None"
        using s1 1 by fastforce
      ultimately show ?thesis by simp
    next
      case 2
      note in2 = this
      have "t' \<in> set ts \<and> pf_ge mult t' \<and> parse_dexscreener_data dex \<noteq> None"
        by (rule s2[rule_format, OF in2])
      then show ?thesis by simp
    qed
  qed
  have B: "\<forall>t'\<in>set (t # ts). pf_ge mult t' \<and> parse_dexscreener_data dex \<noteq> None \<longrightarrow>
          alerted (db s) (ca tok) t' \<or> list_ex (tier_event (ca tok) t') (evs1 @ evs2)"
  proof (intro ballI impI)
    fix t'
    assume m: "t' \<in> set (t # ts)" and g: "pf_ge mult t' \<and> parse_dexscreener_data dex \<noteq> None"
    show "alerted (db s) (ca tok) t' \<or> list_ex (tier_event (ca tok) t') (evs1 @ evs2)"
    proof (cases "t' = t")
      case True
      then have "alerted (db s) (ca tok) t \<or> evs1 \<noteq> []" using c1 g by simp
      then show ?thesis
      proof
        assume "alerted (db s) (ca tok) t"
        then show ?thesis using True by simp
      next
        assume "evs1 \<noteq> []"
        then obtain ev where "ev \<in> set evs1" by (cases evs1) auto
        then have "list_ex (tier_event (ca tok) t) evs1"
          using e1 unfolding list_ex_iff by blast
        then show ?thesis using True by simp
      qed
    next
      case False
      then have "t' \<in> set ts" using m by simp
      then have "alerted (db ?s1) (ca tok) t' \<or> list_ex (tier_event (ca tok) t') evs2"
        using c2 g by blast
      then show ?thesis using a1 False by auto
    qed
  qed
  show ?case
    by (rule exI[of _ "evs1 @ evs2"]) (use t A B in blast)
qed

text \<open>
  C3 (amended). In one evaluation of a token, if a tier \<open>t2\<close> is scheduled, then every
  lower configured tier \<open>t1\<close> was already alerted before the evaluation, or has an
  outcome of its own in the same evaluation: scheduled, deferred by the spacing gate, or
  failed with a logged exception.
\<close>

theorem lower_tier_scheduled_deferred_or_failed:
  "Scheduled (ca tok) t2 ts \<in> set (new_events s (evaluate MULTIPLES E tok dex cur mult s)) \<and>
   t1 \<in> set MULTIPLES \<and> t1 < t2 \<longrightarrow>
     alerted (db s) (ca tok) t1 \<or>
     list_ex (tier_event (ca tok) t1) (new_events s (evaluate MULTIPLES E tok dex cur mult s))"
proof
  assume a: "Scheduled (ca tok) t2 ts \<in> set (new_events s (evaluate MULTIPLES E tok dex cur mult s)) \<and>
   t1 \<in> set MULTIPLES \<and> t1 < t2"
  have d: "distinct MULTIPLES" by (simp add: MULTIPLES_def)
  obtain evs where t: "trace (evaluate MULTIPLES E tok dex cur mult s) = trace s @ evs"
    and A: "\<forall>t ts. Scheduled (ca tok) t ts \<in> set evs \<longrightarrow>
          t \<in> set MULTIPLES \<and> pf_ge mult t \<and> parse_dexscreener_data dex \<noteq> None"
    and B: "\<forall>t\<in>set MULTIPLES. pf_ge mult t \<and> parse_dexscreener_data dex \<noteq> None \<longrightarrow>
          alerted (db s) (ca tok) t \<or> list_ex (tier_event (ca tok) t) evs"
    using evaluate_summary[OF d, of E tok dex cur mult s] by blast
  have n: "new_events s (evaluate MULTIPLES E tok dex cur mult s) = evs"
    using t by (rule new_events_append)
  have in2: "Scheduled (ca tok) t2 ts \<in> set evs"
    using a n by simp
  have g2: "pf_ge mult t2 \<and> parse_dexscreener_data dex \<noteq> None"
    using A[rule_format, OF in2] by simp
  have "pf_ge mult t1"
    using g2 a pf_ge_mono[of mult t2 t1] by simp
  then have "alerted (db s) (ca tok) t1 \<or> list_ex (tier_event (ca tok) t1) evs"
    using B a g2 by blast
  then show "alerted (db s) (ca tok) t1 \<or>
     list_ex (tier_event (ca tok) t1) (new_events s (evaluate MULTIPLES E tok dex cur mult s))"
    unfolding n .
qed

text \<open>
  The claim as it stands fails: in one cycle over the tokens A and B, with clock readings
  3 seconds apart, tier 10 of B is scheduled and recorded while tier 5 of B, not alerted
  before, is deferred and stays unalerted.
\<close>

theorem lower_tier_scheduled_deferred_or_failed_counterexample:
  "trace (monitor_cycle (ex_env (\<lambda>n. 1000 + 3 * real n)) (start (ex_db [ex_token ''A'', ex_token ''B''])))
     = [Checking ''A'', Scheduled ''A'' 5 1000, Deferred ''A'' 10 1009, Deferred ''A'' 20 1012,
        Checking ''B'', Deferred ''B'' 5 1015, Scheduled ''B'' 10 1018, Deferred ''B'' 20 1027] \<and>
   \<not> alerted (db (start (ex_db [ex_token ''A'', ex_token ''B'']))) ''B'' 5 \<and>
   \<not> alerted (db (monitor_cycle (ex_env (\<lambda>n. 1000 + 3 * real n))
        (start (ex_db [ex_token ''A'', ex_token ''B''])))) ''B'' 5 \<and>
   alerted (db (monitor_cycle (ex_env (\<lambda>n. 1000 + 3 * real n))
        (start (ex_db [ex_token ''A'', ex_token ''B''])))) ''B'' 10"
  by (simp add: ex_defs loop_defs alerted_def)

theorem lower_tier_scheduled_deferred_or_failed_witness:
  "new_events (start (ex_db []))
     (evaluate MULTIPLES (ex_env (\<lambda>n. 1000 + 5 * real n)) (ex_token ''B'') ex_dex (Fin 2500) (Fin 25)
        (start (ex_db [])))
     = [Scheduled ''B'' 5 1000, Deferred ''B'' 10 1015, Scheduled ''B'' 20 1020] \<and>
   10 \<in> set MULTIPLES \<and>
   \<not> alerted (db (start (ex_db []))) ''B'' 10 \<and>
   list_ex (tier_event ''B'' 10)
     (new_events (start (ex_db []))
       (evaluate MULTIPLES (ex_env (\<lambda>n. 1000 + 5 * real n)) (ex_token ''B'') ex_dex (Fin 2500) (Fin 25)
          (start (ex_db []))))"
proof -
  let ?E = "ex_env (\<lambda>n. 1000 + 5 * real n)"
  let ?B = "ex_token ''B''"
  let ?z = "start (ex_db [])"
  let ?n = "new_events ?z (evaluate MULTIPLES ?E ?B ex_dex (Fin 2500) (Fin 25) ?z)"
  have n: "?n = [Scheduled ''B'' 5 1000, Deferred ''B'' 10 1015, Scheduled ''B'' 20 1020]"
    by (simp add: new_events_def ex_defs loop_defs)
  have cB: "ca ?B = ''B''" by (simp add: ex_token_def)
  have m: "10 \<in> set MULTIPLES" by (simp add: MULTIPLES_def)
  have na: "\<not> alerted (db ?z) ''B'' 10" by (simp add: alerted_def ex_defs)
  have h: "Scheduled (ca ?B) 20 1020 \<in> set ?n \<and> 10 \<in> set MULTIPLES \<and> (10::int) < 20"
    unfolding n cB using m by simp
  have "alerted (db ?z) (ca ?B) 10 \<or> list_ex (tier_event (ca ?B) 10) ?n"
    by (rule lower_tier_scheduled_deferred_or_failed[rule_format, OF h])
  then have "list_ex (tier_event ''B'' 10) ?n"
    unfolding cB using na by simp
  then show ?thesis using n m na by blast
qed








end
